theory Spec2Isabelle
  imports Complex_Main "HOL-Library.Sublist" "HOL-Library.Char_ord" "HOL-Library.List_Lexorder"
    "HOL-Library.Multiset" "HOL-Library.Word"
begin

unbundle bit_operations_syntax

section \<open>LexiLoop AI service: content validator and story cache\<close>

text \<open>
  A shallow embedding of \<^verbatim>\<open>src/content_validator/validator.py\<close>,
  \<^verbatim>\<open>src/story_generator/generator.py\<close> and the \<^verbatim>\<open>/generate-story\<close> handler of
  \<^verbatim>\<open>main.py\<close>.

  Conventions of the embedding:
  \<^item> a Python \<^verbatim>\<open>str\<close> is a \<^typ>\<open>string\<close>; each \<^typ>\<open>char\<close> stands for the code point
    of the same number (0 to 255), so the character classes below are Python's classes
    on that range. Code points above 255 are outside the model;
  \<^item> a Python \<^verbatim>\<open>float\<close> is a \<^typ>\<open>rat\<close>: scores are computed exactly, without
    binary rounding;
  \<^item> a raised exception is \<open>Inl e\<close> of a sum type, a returned value is \<open>Inr v\<close>;
  \<^item> \<^verbatim>\<open>async\<close> functions are modelled as ordinary functions.
\<close>

subsection \<open>Python primitives\<close>

datatype py_error = ZeroDivisionError

definition bind_error :: "py_error + 'a \<Rightarrow> ('a \<Rightarrow> py_error + 'b) \<Rightarrow> py_error + 'b" where
  \<comment> \<open>sequencing: an exception raised by the first computation ends the function\<close>
  "bind_error r f = (case r of Inl e \<Rightarrow> Inl e | Inr v \<Rightarrow> f v)"

definition py_truediv :: "nat \<Rightarrow> nat \<Rightarrow> py_error + rat" where
  \<comment> \<open>\<^verbatim>\<open>a / b\<close> on two non-negative integers\<close>
  "py_truediv a b = (if b = 0 then Inl ZeroDivisionError else Inr (of_nat a / of_nat b))"

definition py_isspace :: "char \<Rightarrow> bool" where
  \<comment> \<open>the characters that \<^verbatim>\<open>str.strip()\<close> and \<^verbatim>\<open>str.split()\<close> treat as whitespace\<close>
  "py_isspace c =
     (let n = (of_char c :: nat)
      in (9 \<le> n \<and> n \<le> 13) \<or> (28 \<le> n \<and> n \<le> 32) \<or> n = 133 \<or> n = 160)"

definition py_isupper :: "char \<Rightarrow> bool" where
  \<comment> \<open>\<^verbatim>\<open>c.isupper()\<close> for a one-character string\<close>
  "py_isupper c =
     (let n = (of_char c :: nat)
      in (65 \<le> n \<and> n \<le> 90) \<or> (192 \<le> n \<and> n \<le> 214) \<or> (216 \<le> n \<and> n \<le> 222))"

definition lower_char :: "char \<Rightarrow> char" where
  "lower_char c = (if py_isupper c then char_of ((of_char c :: nat) + 32) else c)"

definition py_lower :: "string \<Rightarrow> string" where
  \<comment> \<open>\<^verbatim>\<open>s.lower()\<close>\<close>
  "py_lower s = map lower_char s"

definition py_strip :: "string \<Rightarrow> string" where
  \<comment> \<open>\<^verbatim>\<open>s.strip()\<close>\<close>
  "py_strip s = rev (dropWhile py_isspace (rev (dropWhile py_isspace s)))"

fun split_ws :: "string \<Rightarrow> string \<Rightarrow> string list" where
  \<comment> \<open>the first argument is the token read so far, reversed\<close>
  "split_ws cur [] = (if cur = [] then [] else [rev cur])"
| "split_ws cur (c # cs) =
     (if py_isspace c
      then (if cur = [] then split_ws [] cs else rev cur # split_ws [] cs)
      else split_ws (c # cur) cs)"

definition py_split :: "string \<Rightarrow> string list" where
  \<comment> \<open>\<^verbatim>\<open>s.split()\<close>: the maximal runs of non-whitespace characters\<close>
  "py_split s = split_ws [] s"

definition py_endswith :: "string \<Rightarrow> string \<Rightarrow> bool" where
  \<comment> \<open>\<^verbatim>\<open>s.endswith(suf)\<close>\<close>
  "py_endswith s suf = suffix suf s"

fun py_in :: "string \<Rightarrow> string \<Rightarrow> bool" where
  \<comment> \<open>\<^verbatim>\<open>w in s\<close> for strings: \<open>w\<close> occurs in \<open>s\<close> as a contiguous substring\<close>
  "py_in w [] = (w = [])"
| "py_in w (c # cs) = (prefix w (c # cs) \<or> py_in w cs)"

subsection \<open>The regular expressions of the validator\<close>

definition is_end_punct :: "char \<Rightarrow> bool" where
  \<comment> \<open>the character class \<^verbatim>\<open>[.!?]\<close>\<close>
  "is_end_punct c = (c = CHR ''.'' \<or> c = CHR ''!'' \<or> c = CHR ''?'')"

definition is_ascii_letter :: "char \<Rightarrow> bool" where
  \<comment> \<open>the character class \<^verbatim>\<open>[a-zA-Z]\<close>\<close>
  "is_ascii_letter c =
     (let n = (of_char c :: nat) in (65 \<le> n \<and> n \<le> 90) \<or> (97 \<le> n \<and> n \<le> 122))"

definition re_word_char :: "char \<Rightarrow> bool" where
  \<comment> \<open>the class \<^verbatim>\<open>\w\<close> of a \<^verbatim>\<open>str\<close> pattern: alphanumeric characters and the underscore\<close>
  "re_word_char c =
     (let n = (of_char c :: nat)
      in (48 \<le> n \<and> n \<le> 57) \<or> (65 \<le> n \<and> n \<le> 90) \<or> n = 95 \<or> (97 \<le> n \<and> n \<le> 122)
         \<or> n = 170 \<or> n = 178 \<or> n = 179 \<or> n = 181 \<or> n = 185 \<or> n = 186
         \<or> (188 \<le> n \<and> n \<le> 190) \<or> (192 \<le> n \<and> n \<le> 214) \<or> (216 \<le> n \<and> n \<le> 246)
         \<or> (248 \<le> n \<and> n \<le> 255))"

fun re_split_punct :: "bool \<Rightarrow> string \<Rightarrow> string \<Rightarrow> string list" where
  \<comment> \<open>\<^verbatim>\<open>re.split(r'[.!?]+', s)\<close>; the flag says that the previous character belonged to a
      separator, the second argument is the piece read so far, reversed\<close>
  "re_split_punct r cur [] = [rev cur]"
| "re_split_punct r cur (c # cs) =
     (if is_end_punct c
      then (if r then re_split_punct True [] cs else rev cur # re_split_punct True [] cs)
      else re_split_punct False (c # cur) cs)"

definition re_split_sentences :: "string \<Rightarrow> string list" where
  "re_split_sentences s = re_split_punct False [] s"

fun re_search_punct_letter :: "string \<Rightarrow> bool" where
  \<comment> \<open>\<^verbatim>\<open>re.search(r'[.!?][a-zA-Z]', s)\<close> finds a match\<close>
  "re_search_punct_letter (a # b # cs) =
     ((is_end_punct a \<and> is_ascii_letter b) \<or> re_search_punct_letter (b # cs))"
| "re_search_punct_letter _ = False"

definition suffix_alternatives :: "string list" where
  "suffix_alternatives = [''ed'', ''es'', ''s'']"

definition matches_suffix_here :: "string \<Rightarrow> bool" where
  \<comment> \<open>\<^verbatim>\<open>(ed|es|s)$\<close> matches at the start of the argument: one alternative, then the end of
      the string or a newline that ends the string\<close>
  "matches_suffix_here s =
     (\<exists>alt \<in> set suffix_alternatives. s = alt \<or> s = alt @ [CHR 0x0A])"

fun re_sub_suffix :: "string \<Rightarrow> string" where
  \<comment> \<open>\<^verbatim>\<open>re.sub(r'(ed|es|s)$', '', s)\<close>: the leftmost match is removed; what follows a match
      is at most a final newline, where the pattern cannot match again\<close>
  "re_sub_suffix [] = []"
| "re_sub_suffix (c # cs) =
     (if matches_suffix_here (c # cs)
      then (if last (c # cs) = CHR 0x0A then [CHR 0x0A] else [])
      else c # re_sub_suffix cs)"

definition is_word :: "char option \<Rightarrow> bool" where
  "is_word p = (case p of None \<Rightarrow> False | Some c \<Rightarrow> re_word_char c)"

definition word_boundary :: "char option \<Rightarrow> char option \<Rightarrow> bool" where
  \<comment> \<open>\<^verbatim>\<open>\b\<close> between the previous and the next character (\<open>None\<close> at either end of the
      string)\<close>
  "word_boundary p n = (is_word p \<noteq> is_word n)"

fun match_literal_boundary :: "char option \<Rightarrow> string \<Rightarrow> string \<Rightarrow> bool" where
  \<comment> \<open>the rest of the pattern, a literal and then \<^verbatim>\<open>\b\<close>, matches at the start of the third
      argument; the first argument is the character before it\<close>
  "match_literal_boundary p [] rest =
     word_boundary p (case rest of [] \<Rightarrow> None | c # _ \<Rightarrow> Some c)"
| "match_literal_boundary p (l # ls) [] = False"
| "match_literal_boundary p (l # ls) (c # cs) = (l = c \<and> match_literal_boundary (Some c) ls cs)"

fun re_search_word :: "char option \<Rightarrow> string \<Rightarrow> string \<Rightarrow> bool" where
  \<comment> \<open>\<^verbatim>\<open>re.search(r'\b' + re.escape(w) + r'\b', s)\<close> finds a match: every start position is
      tried from left to right\<close>
  "re_search_word p w [] = (word_boundary p None \<and> match_literal_boundary p w [])"
| "re_search_word p w (c # cs) =
     ((word_boundary p (Some c) \<and> match_literal_boundary p w (c # cs))
      \<or> re_search_word (Some c) w cs)"

subsection \<open>The content validator\<close>

datatype issue =
    ContentTooShort             \<comment> \<open>\<^verbatim>\<open>"Content too short"\<close>\<close>
  | ContentTooLong              \<comment> \<open>\<^verbatim>\<open>"Content too long"\<close>\<close>
  | LowVocabularyCoverage rat   \<comment> \<open>\<^verbatim>\<open>f"Low vocabulary coverage: {vocab_coverage:.2f}"\<close>\<close>
  | PoorReadability             \<comment> \<open>\<^verbatim>\<open>"Poor readability"\<close>\<close>
  | PoorCoherence               \<comment> \<open>\<^verbatim>\<open>"Poor coherence"\<close>\<close>
  | GrammarIssues               \<comment> \<open>\<^verbatim>\<open>"Grammar issues detected"\<close>\<close>

record ValidationResult =
  is_valid :: bool
  quality_score :: rat
  issues :: "issue list"
  vocabulary_coverage :: rat
  readability_score :: rat
  coherence_score :: rat

definition min_quality_threshold :: rat where
  "min_quality_threshold = 7 / 10"

definition common_words :: "string list" where
  "common_words =
    [''the'', ''be'', ''to'', ''of'', ''and'', ''a'', ''in'', ''that'', ''have'',
     ''i'', ''it'', ''for'', ''not'', ''on'', ''with'', ''he'', ''as'', ''you'',
     ''do'', ''at'', ''this'', ''but'', ''his'', ''by'', ''from'', ''they'',
     ''she'', ''her'', ''or'', ''an'', ''will'', ''my'', ''one'', ''all'',
     ''would'', ''there'', ''their'', ''what'', ''so'', ''up'', ''out'',
     ''if'', ''about'', ''who'', ''get'', ''which'', ''go'', ''me'', ''when'',
     ''make'', ''can'', ''like'', ''time'', ''no'', ''just'', ''him'', ''know'',
     ''take'', ''people'', ''into'', ''year'', ''your'', ''good'', ''some'',
     ''could'', ''them'', ''see'', ''other'', ''than'', ''then'', ''now'',
     ''look'', ''only'', ''come'', ''its'', ''over'', ''think'', ''also'',
     ''back'', ''after'', ''use'', ''two'', ''how'', ''our'', ''work'',
     ''first'', ''well'', ''way'', ''even'', ''new'', ''want'', ''because'',
     ''any'', ''these'', ''give'', ''day'', ''most'', ''us'']"

subsubsection \<open>\<^verbatim>\<open>_count_syllables\<close>\<close>

definition is_vowel :: "char \<Rightarrow> bool" where
  \<comment> \<open>\<^verbatim>\<open>char in 'aeiouy'\<close>\<close>
  "is_vowel c = (c \<in> set ''aeiouy'')"

fun vowel_groups :: "bool \<Rightarrow> nat \<Rightarrow> string \<Rightarrow> nat" where
  \<comment> \<open>the loop over the characters, from \<open>prev_was_vowel\<close> and \<open>syllable_count\<close>\<close>
  "vowel_groups prev_was_vowel syllable_count [] = syllable_count"
| "vowel_groups prev_was_vowel syllable_count (c # cs) =
     vowel_groups (is_vowel c)
       (if is_vowel c \<and> \<not> prev_was_vowel then syllable_count + 1 else syllable_count) cs"

definition count_syllables :: "string \<Rightarrow> nat" where
  "count_syllables word0 =
     (let word = py_strip (py_lower word0)
      in if word = [] then 0
         else
           let word = re_sub_suffix word;
               syllable_count = vowel_groups False 0 word;
               syllable_count =
                 (if py_endswith word ''e'' \<and> syllable_count > 1
                  then syllable_count - 1 else syllable_count)
           in max 1 syllable_count)"

subsubsection \<open>\<^verbatim>\<open>_check_vocabulary_coverage\<close>\<close>

fun count_words_found :: "string \<Rightarrow> nat \<Rightarrow> string list \<Rightarrow> nat" where
  \<comment> \<open>the loop over the vocabulary, from \<open>words_found\<close>\<close>
  "count_words_found content_lower words_found [] = words_found"
| "count_words_found content_lower words_found (word # vocabulary) =
     count_words_found content_lower
       (if re_search_word None (py_lower word) content_lower
        then words_found + 1 else words_found) vocabulary"

definition check_vocabulary_coverage :: "string \<Rightarrow> string list \<Rightarrow> py_error + rat" where
  "check_vocabulary_coverage content vocabulary =
     (if vocabulary = [] then Inr 1
      else py_truediv (count_words_found (py_lower content) 0 vocabulary) (length vocabulary))"

subsubsection \<open>\<^verbatim>\<open>_check_readability\<close>\<close>

definition sentences_of :: "string \<Rightarrow> string list" where
  \<comment> \<open>\<^verbatim>\<open>[s.strip() for s in re.split(r'[.!?]+', content) if s.strip()]\<close>\<close>
  "sentences_of content =
     map py_strip (filter (\<lambda>s. py_strip s \<noteq> []) (re_split_sentences content))"

fun count_in_words :: "nat \<times> nat \<Rightarrow> string list \<Rightarrow> nat \<times> nat" where
  \<comment> \<open>the inner loop over the words of a sentence, from
      \<open>(total_syllables, complex_words)\<close>\<close>
  "count_in_words acc [] = acc"
| "count_in_words (total_syllables, complex_words) (word # ws) =
     (let syllables = count_syllables word
      in count_in_words
           (total_syllables + syllables,
            if syllables > 2 \<and> py_lower word \<notin> set common_words
            then complex_words + 1 else complex_words) ws)"

fun count_in_sentences :: "nat \<times> nat \<times> nat \<Rightarrow> string list \<Rightarrow> nat \<times> nat \<times> nat" where
  \<comment> \<open>the outer loop over the sentences, from
      \<open>(total_words, total_syllables, complex_words)\<close>\<close>
  "count_in_sentences acc [] = acc"
| "count_in_sentences (total_words, total_syllables, complex_words) (sentence # ss) =
     (let ws = py_split sentence;
          (total_syllables', complex_words') =
             count_in_words (total_syllables, complex_words) ws
      in count_in_sentences (total_words + length ws, total_syllables', complex_words') ss)"

definition check_readability :: "string \<Rightarrow> py_error + rat" where
  "check_readability content =
     (let sentences = sentences_of content
      in if sentences = [] then Inr 0
         else
           let (total_words, total_syllables, complex_words) =
                 count_in_sentences (0, 0, 0) sentences
           in if total_words = 0 then Inr 0
              else
                bind_error (py_truediv total_words (length sentences))
                  (\<lambda>avg_sentence_length.
                bind_error (py_truediv total_syllables total_words)
                  (\<lambda>avg_syllables.
                bind_error (py_truediv complex_words total_words)
                  (\<lambda>complexity_ratio.
                     let sentence_score = max 0 (1 - \<bar>avg_sentence_length - 15\<bar> / 15);
                         syllable_score = max 0 (1 - \<bar>avg_syllables - 2\<bar> / 2);
                         complexity_score = max 0 (1 - complexity_ratio);
                         readability =
                           (sentence_score + syllable_score + complexity_score) / 3
                     in Inr (min 1 readability)))))"

subsubsection \<open>\<^verbatim>\<open>_check_coherence\<close>\<close>

definition transitions :: "string list" where
  "transitions = [''however'', ''therefore'', ''meanwhile'', ''then'', ''next'', ''finally'',
     ''first'', ''second'', ''later'', ''after'', ''before'']"

definition pronouns :: "string list" where
  "pronouns = [''he'', ''she'', ''it'', ''they'', ''this'', ''that'', ''these'', ''those'']"

definition connectors :: "string list" where
  "connectors = [''and'', ''but'', ''or'', ''so'', ''because'', ''since'', ''although'',
     ''while'']"

definition count_present :: "string list \<Rightarrow> string \<Rightarrow> nat" where
  \<comment> \<open>\<^verbatim>\<open>sum(1 for word in indicators if word in content_lower)\<close>\<close>
  "count_present indicators content_lower =
     sum_list (map (\<lambda>word. if py_in word content_lower then 1 else 0) indicators)"

definition check_coherence :: "string \<Rightarrow> rat" where
  "check_coherence content =
     (let sentences = sentences_of content
      in if length sentences < 3 then 3 / 10
         else
           let content_lower = py_lower content;
               coherence = 1 / 2;
               transition_count = count_present transitions content_lower;
               coherence = coherence + min (2 / 10) (of_nat transition_count * (5 / 100));
               pronoun_count = count_present pronouns content_lower;
               coherence = coherence + min (15 / 100) (of_nat pronoun_count * (2 / 100));
               connector_count = count_present connectors content_lower;
               coherence = coherence + min (15 / 100) (of_nat connector_count * (3 / 100))
           in min 1 coherence)"

subsubsection \<open>\<^verbatim>\<open>_check_basic_grammar\<close>\<close>

definition starts_upper :: "string \<Rightarrow> bool" where
  \<comment> \<open>\<^verbatim>\<open>sentence and sentence[0].isupper()\<close>\<close>
  "starts_upper sentence = (case sentence of [] \<Rightarrow> False | c # _ \<Rightarrow> py_isupper c)"

definition count_nonempty :: "string list \<Rightarrow> nat" where
  \<comment> \<open>\<^verbatim>\<open>len([s for s in sentences if s.strip()])\<close>\<close>
  "count_nonempty sentences = length (filter (\<lambda>s. py_strip s \<noteq> []) sentences)"

definition check_basic_grammar :: "string \<Rightarrow> py_error + rat" where
  "check_basic_grammar content =
     (let grammar_score = (1 :: rat);
          sentences = re_split_sentences content;
          capitalized_sentences = length (filter (\<lambda>s. starts_upper (py_strip s)) sentences)
      in bind_error
           (if sentences \<noteq> []
            then bind_error (py_truediv capitalized_sentences (count_nonempty sentences))
                   (\<lambda>capitalization_ratio. Inr (grammar_score * capitalization_ratio))
            else Inr grammar_score)
           (\<lambda>grammar_score.
              let has_periods = (CHR ''.'' \<in> set content);
                  has_proper_spacing = (\<not> re_search_punct_letter content);
                  grammar_score =
                    (if \<not> has_periods then grammar_score * (8 / 10) else grammar_score);
                  grammar_score =
                    (if \<not> has_proper_spacing then grammar_score * (9 / 10) else grammar_score);
                  words = py_split content
              in bind_error
                   (if words \<noteq> []
                    then (let sentences_list = re_split_sentences content
                          in if sentences_list \<noteq> []
                             then bind_error
                                    (py_truediv (length words) (count_nonempty sentences_list))
                                    (\<lambda>avg_sentence_length.
                                       Inr (if avg_sentence_length > 30
                                            then grammar_score * (8 / 10) else grammar_score))
                             else Inr grammar_score)
                    else Inr grammar_score)
                   (\<lambda>grammar_score. Inr (max 0 grammar_score))))"

subsubsection \<open>\<^verbatim>\<open>_comprehensive_validation\<close> and \<^verbatim>\<open>validate\<close>\<close>

definition append_if :: "bool \<Rightarrow> issue \<Rightarrow> issue list \<Rightarrow> issue list" where
  \<comment> \<open>\<^verbatim>\<open>if cond: issues.append(tag)\<close>\<close>
  "append_if cond tag found = (if cond then found @ [tag] else found)"

definition comprehensive_validation :: "string \<Rightarrow> string list \<Rightarrow> py_error + ValidationResult" where
  "comprehensive_validation content vocabulary =
     (let issues = [];
          issues = append_if (length (py_strip content) < 100) ContentTooShort issues;
          issues = append_if (length (py_strip content) > 1500) ContentTooLong issues
      in bind_error (check_vocabulary_coverage content vocabulary)
           (\<lambda>vocab_coverage.
              let issues = append_if (vocab_coverage < 8 / 10)
                             (LowVocabularyCoverage vocab_coverage) issues
              in bind_error (check_readability content)
                   (\<lambda>readability.
                      let issues = append_if (readability < 5 / 10) PoorReadability issues;
                          coherence = check_coherence content;
                          issues = append_if (coherence < 6 / 10) PoorCoherence issues
                      in bind_error (check_basic_grammar content)
                           (\<lambda>grammar_score.
                              let issues = append_if (grammar_score < 7 / 10) GrammarIssues issues;
                                  quality =
                                    vocab_coverage * (3 / 10) + readability * (25 / 100)
                                    + coherence * (25 / 100) + grammar_score * (2 / 10);
                                  valid = (quality \<ge> min_quality_threshold
                                           \<and> length issues \<le> 2)
                              in Inr \<lparr> is_valid = valid, quality_score = quality,
                                       issues = issues, vocabulary_coverage = vocab_coverage,
                                       readability_score = readability,
                                       coherence_score = coherence \<rparr>))))"

definition validate :: "string \<Rightarrow> string list \<Rightarrow> py_error + (bool \<times> rat)" where
  \<comment> \<open>\<^verbatim>\<open>try: ... except Exception\<close>: every error of the body is caught\<close>
  "validate content vocabulary =
     (case comprehensive_validation content vocabulary of
        Inr validation_result \<Rightarrow>
          Inr (is_valid validation_result, quality_score validation_result)
      | Inl e \<Rightarrow> Inr (False, 0))"

subsection \<open>Closed forms used in the proofs\<close>

text \<open>
  The value of the grammar scorer when it returns: the capitalisation ratio times the three
  penalties.
\<close>

definition grammar_product :: "string \<Rightarrow> rat" where
  "grammar_product c =
     (of_nat (length (filter (\<lambda>s. starts_upper (py_strip s)) (re_split_sentences c)))
        / of_nat (count_nonempty (re_split_sentences c)))
     * (if CHR ''.'' \<in> set c then 1 else 8 / 10)
     * (if re_search_punct_letter c then 9 / 10 else 1)
     * (if of_nat (length (py_split c)) / of_nat (count_nonempty (re_split_sentences c)) > (30::rat)
        then 8 / 10 else 1)"

subsection \<open>Whole-word occurrence, stated by positions\<close>

text \<open>
  The specification's notion of a case-insensitive whole-word search, stated on positions of
  the text rather than by a scan.
\<close>

definition boundary_at :: "string \<Rightarrow> nat \<Rightarrow> bool" where
  \<comment> \<open>position \<open>i\<close> of \<open>s\<close> lies between a word character and a character that is none, or
      between a word character and an end of \<open>s\<close>\<close>
  "boundary_at s i =
     ((0 < i \<and> i \<le> length s \<and> re_word_char (s ! (i - 1)))
      \<noteq> (i < length s \<and> re_word_char (s ! i)))"

definition occurs_as_whole_word :: "string \<Rightarrow> string \<Rightarrow> bool" where
  \<comment> \<open>\<open>w\<close> occurs in \<open>s\<close> at some position, with a word boundary before and after it\<close>
  "occurs_as_whole_word w s =
     (\<exists>i \<in> {0..length s}.
        prefix w (drop i s) \<and> boundary_at s i \<and> boundary_at s (i + length w))"

definition found_in_text :: "string \<Rightarrow> string \<Rightarrow> bool" where
  \<comment> \<open>the case-insensitive whole-word search of a vocabulary word in a text\<close>
  "found_in_text w text = occurs_as_whole_word (py_lower w) (py_lower text)"

definition last_option :: "string \<Rightarrow> char option" where
  "last_option s = (if s = [] then None else Some (last s))"

definition head_option :: "string \<Rightarrow> char option" where
  "head_option s = (case s of [] \<Rightarrow> None | c # _ \<Rightarrow> Some c)"

subsection \<open>Cohesion markers present in a text\<close>

definition present_markers :: "string list \<Rightarrow> string \<Rightarrow> string set" where
  \<comment> \<open>the words of a marker list that occur somewhere in the lower-cased text\<close>
  "present_markers markers text = {w \<in> set markers. sublist w (py_lower text)}"

subsection \<open>The syllable estimator in the specification's words\<close>

definition strip_one_suffix :: "string \<Rightarrow> string" where
  \<comment> \<open>one trailing \<open>ed\<close>, \<open>es\<close> or \<open>s\<close> is removed\<close>
  "strip_one_suffix w =
     (if suffix ''ed'' w \<or> suffix ''es'' w then take (length w - 2) w
      else if suffix ''s'' w then take (length w - 1) w
      else w)"

definition vowel_onsets :: "string \<Rightarrow> nat" where
  \<comment> \<open>the number of vowels that follow a non-vowel or start the word\<close>
  "vowel_onsets w =
     length (filter (\<lambda>(prev_vowel, c). \<not> prev_vowel \<and> is_vowel c)
               (zip (False # map is_vowel w) w))"

definition estimate_syllables :: "string \<Rightarrow> nat" where
  \<comment> \<open>the estimator as the specification words it, without trimming\<close>
  "estimate_syllables token =
     (if token = [] then 0
      else
        let w = strip_one_suffix (py_lower token);
            n = vowel_onsets w;
            n = (if suffix ''e'' w \<and> n > 1 then n - 1 else n)
        in max 1 n)"

subsection \<open>The example of the specification\<close>

definition example_text :: string where
  "example_text = ''The brave explorer decided to embark on an exciting adventure into the mysterious forest. She wanted to discover ancient secrets hidden deep within the woods. As she walked through the dense trees, every sound made her heart race with anticipation. The adventure was challenging, but she was determined to explore every corner and discover the truth about the mysterious legends she had heard.''"

definition example_vocabulary :: "string list" where
  "example_vocabulary = [''adventure'', ''mysterious'', ''explore'', ''discover'']"

subsection \<open>\<^verbatim>\<open>hashlib.md5\<close>\<close>

type_synonym byte = "8 word"
type_synonym md5_state = "32 word \<times> 32 word \<times> 32 word \<times> 32 word"

definition md5_shifts :: "nat list" where
  "md5_shifts =
    [7, 12, 17, 22, 7, 12, 17, 22, 7, 12, 17, 22, 7, 12, 17, 22,
     5, 9, 14, 20, 5, 9, 14, 20, 5, 9, 14, 20, 5, 9, 14, 20,
     4, 11, 16, 23, 4, 11, 16, 23, 4, 11, 16, 23, 4, 11, 16, 23,
     6, 10, 15, 21, 6, 10, 15, 21, 6, 10, 15, 21, 6, 10, 15, 21]"

definition md5_sines :: "32 word list" where
  "md5_sines =
    [0xd76aa478, 0xe8c7b756, 0x242070db, 0xc1bdceee, 0xf57c0faf, 0x4787c62a, 0xa8304613, 0xfd469501,
     0x698098d8, 0x8b44f7af, 0xffff5bb1, 0x895cd7be, 0x6b901122, 0xfd987193, 0xa679438e, 0x49b40821,
     0xf61e2562, 0xc040b340, 0x265e5a51, 0xe9b6c7aa, 0xd62f105d, 0x02441453, 0xd8a1e681, 0xe7d3fbc8,
     0x21e1cde6, 0xc33707d6, 0xf4d50d87, 0x455a14ed, 0xa9e3e905, 0xfcefa3f8, 0x676f02d9, 0x8d2a4c8a,
     0xfffa3942, 0x8771f681, 0x6d9d6122, 0xfde5380c, 0xa4beea44, 0x4bdecfa9, 0xf6bb4b60, 0xbebfbc70,
     0x289b7ec6, 0xeaa127fa, 0xd4ef3085, 0x04881d05, 0xd9d4d039, 0xe6db99e5, 0x1fa27cf8, 0xc4ac5665,
     0xf4292244, 0x432aff97, 0xab9423a7, 0xfc93a039, 0x655b59c3, 0x8f0ccc92, 0xffeff47d, 0x85845dd1,
     0x6fa87e4f, 0xfe2ce6e0, 0xa3014314, 0x4e0811a1, 0xf7537e82, 0xbd3af235, 0x2ad7d2bb, 0xeb86d391]"

definition md5_init :: md5_state where
  "md5_init = (0x67452301, 0xefcdab89, 0x98badcfe, 0x10325476)"

fun le_bytes :: "nat \<Rightarrow> nat \<Rightarrow> byte list" where
  \<comment> \<open>the \<open>k\<close> low bytes of a number, least significant first\<close>
  "le_bytes 0 v = []"
| "le_bytes (Suc k) v = of_nat (v mod 256) # le_bytes k (v div 256)"

definition word_bytes :: "32 word \<Rightarrow> byte list" where
  \<comment> \<open>the four bytes of a word, least significant first\<close>
  "word_bytes w = map (\<lambda>i. ucast (drop_bit (8 * i) w)) [0..<4]"

definition le_word :: "byte list \<Rightarrow> 32 word" where
  \<comment> \<open>the word of four bytes, least significant first\<close>
  "le_word bs = foldr (\<lambda>b w. ucast b + push_bit 8 w) bs 0"

definition chunk_list :: "nat \<Rightarrow> 'a list \<Rightarrow> 'a list list" where
  "chunk_list n xs = map (\<lambda>i. take n (drop (i * n) xs)) [0..<length xs div n]"

definition md5_padding :: "byte list \<Rightarrow> byte list" where
  \<comment> \<open>a one bit, zeros up to 56 modulo 64, and the length in bits as 64 bits\<close>
  "md5_padding msg =
     msg @ [0x80] @ replicate ((119 - length msg mod 64) mod 64) 0 @ le_bytes 8 (8 * length msg)"

definition md5_step :: "32 word list \<Rightarrow> md5_state \<Rightarrow> nat \<Rightarrow> md5_state" where
  "md5_step M st i =
     (case st of (A, B, C, D) \<Rightarrow>
        let (F, g) =
              (if i < 16 then ((B AND C) OR (NOT B AND D), i)
               else if i < 32 then ((D AND B) OR (NOT D AND C), (5 * i + 1) mod 16)
               else if i < 48 then (B XOR C XOR D, (3 * i + 5) mod 16)
               else (C XOR (B OR NOT D), (7 * i) mod 16));
            F = F + A + md5_sines ! i + M ! g
        in (D, B + word_rotl (md5_shifts ! i) F, B, C))"

definition md5_block :: "md5_state \<Rightarrow> byte list \<Rightarrow> md5_state" where
  "md5_block st block =
     (let M = map le_word (chunk_list 4 block)
      in case (st, foldl (md5_step M) st [0..<64]) of
           ((a0, b0, c0, d0), (A, B, C, D)) \<Rightarrow> (a0 + A, b0 + B, c0 + C, d0 + D))"

definition md5_digest :: "byte list \<Rightarrow> byte list" where
  "md5_digest msg =
     (case foldl md5_block md5_init (chunk_list 64 (md5_padding msg)) of
        (A, B, C, D) \<Rightarrow> concat (map word_bytes [A, B, C, D]))"

definition hex_digit :: "nat \<Rightarrow> char" where
  "hex_digit n = ''0123456789abcdef'' ! (n mod 16)"

definition hexdigest :: "byte list \<Rightarrow> string" where
  \<comment> \<open>\<^verbatim>\<open>hashlib.md5(data).hexdigest()\<close>\<close>
  "hexdigest data =
     concat (map (\<lambda>b. [hex_digit (unat b div 16), hex_digit (unat b)]) (md5_digest data))"

definition utf8_encode :: "string \<Rightarrow> byte list" where
  \<comment> \<open>\<^verbatim>\<open>s.encode()\<close> on code points below 256: one byte below 128, two bytes from 128 on\<close>
  "utf8_encode s =
     concat (map (\<lambda>c. let n = (of_char c :: nat)
                      in if n < 128 then [of_nat n]
                         else [of_nat (192 + n div 64), of_nat (128 + n mod 64)]) s)"

subsection \<open>Python's \<^verbatim>\<open>repr\<close> of a list of strings and \<^verbatim>\<open>str\<close> of an integer\<close>

definition py_isprintable :: "char \<Rightarrow> bool" where
  \<comment> \<open>\<^verbatim>\<open>c.isprintable()\<close> on code points below 256\<close>
  "py_isprintable c =
     (let n = (of_char c :: nat) in \<not> (n < 32 \<or> (127 \<le> n \<and> n \<le> 160) \<or> n = 173))"

definition repr_quote :: "string \<Rightarrow> char" where
  \<comment> \<open>double quotes when the string has a single quote and no double quote, single quotes
      otherwise\<close>
  "repr_quote s = (if CHR 0x27 \<in> set s \<and> CHR 0x22 \<notin> set s then CHR 0x22 else CHR 0x27)"

definition repr_char :: "char \<Rightarrow> char \<Rightarrow> string" where
  \<comment> \<open>one character inside the quotes \<open>q\<close>\<close>
  "repr_char q c =
     (if c = q \<or> c = CHR 0x5C then [CHR 0x5C, c]
      else if c = CHR 0x09 then [CHR 0x5C, CHR ''t'']
      else if c = CHR 0x0A then [CHR 0x5C, CHR ''n'']
      else if c = CHR 0x0D then [CHR 0x5C, CHR ''r'']
      else if \<not> py_isprintable c
        then [CHR 0x5C, CHR ''x'', hex_digit ((of_char c :: nat) div 16), hex_digit (of_char c)]
      else [c])"

definition py_repr_str :: "string \<Rightarrow> string" where
  \<comment> \<open>\<^verbatim>\<open>repr(s)\<close>\<close>
  "py_repr_str s = (let q = repr_quote s in [q] @ concat (map (repr_char q) s) @ [q])"

fun join_comma :: "string list \<Rightarrow> string" where
  \<comment> \<open>\<^verbatim>\<open>', '.join(items)\<close>\<close>
  "join_comma [] = []"
| "join_comma [x] = x"
| "join_comma (x # y # ys) = x @ '', '' @ join_comma (y # ys)"

definition py_repr_list :: "string list \<Rightarrow> string" where
  \<comment> \<open>\<^verbatim>\<open>str(xs)\<close> for a list of strings\<close>
  "py_repr_list xs = ''['' @ join_comma (map py_repr_str xs) @ '']''"

definition digit_char :: "nat \<Rightarrow> char" where
  "digit_char d = ''0123456789'' ! (d mod 10)"

function str_nat :: "nat \<Rightarrow> string" where
  "str_nat n = (if n < 10 then [digit_char n] else str_nat (n div 10) @ [digit_char (n mod 10)])"
  by pat_completeness auto
termination
  by (relation "measure (\<lambda>n. n)") auto

definition py_str_int :: "int \<Rightarrow> string" where
  \<comment> \<open>\<^verbatim>\<open>str(i)\<close>\<close>
  "py_str_int i = (if i < 0 then ''-'' @ str_nat (nat (- i)) else str_nat (nat i))"

subsection \<open>The story generator\<close>






definition key_string :: "string list \<Rightarrow> int \<Rightarrow> string \<Rightarrow> string" where
  \<comment> \<open>\<^verbatim>\<open>f"{sorted_vocab}_{difficulty}_{story_type}"\<close>\<close>
  "key_string vocabulary difficulty story_type =
     (let sorted_vocab = sort vocabulary
      in py_repr_list sorted_vocab @ ''_'' @ py_str_int difficulty @ ''_'' @ story_type)"

definition generate_cache_key :: "string list \<Rightarrow> int \<Rightarrow> string \<Rightarrow> string" where
  "generate_cache_key vocabulary difficulty story_type =
     hexdigest (utf8_encode (key_string vocabulary difficulty story_type))"




subsection \<open>The \<^verbatim>\<open>/generate-story\<close> handler\<close>







subsection \<open>The range of the cache keys\<close>

definition hex_strings :: "string set" where
  "hex_strings = {s. set s \<subseteq> set ''0123456789abcdef'' \<and> length s = 32}"

section \<open>Properties\<close>

subsection \<open>Ranges and closed forms of the scorers\<close>

lemma count_words_found_eq:
  "count_words_found cl n V = n + length (filter (\<lambda>w. re_search_word None (py_lower w) cl) V)"
  by (induction V arbitrary: n) auto

lemma check_vocabulary_coverage_eq:
  "check_vocabulary_coverage c V =
     Inr (if V = [] then 1
          else of_nat (length (filter (\<lambda>w. re_search_word None (py_lower w) (py_lower c)) V))
               / of_nat (length V))"
  by (simp add: check_vocabulary_coverage_def py_truediv_def count_words_found_eq)

lemma ratio_range:
  fixes a b :: nat
  assumes "a \<le> b" "b \<noteq> 0"
  shows "(0::rat) \<le> of_nat a / of_nat b \<and> (of_nat a / of_nat b :: rat) \<le> 1"
proof -
  have "(of_nat a :: rat) \<le> of_nat b" using assms(1) by (simp only: of_nat_le_iff)
  moreover have "(0::rat) < of_nat b" using assms(2) by simp
  ultimately show ?thesis by (simp add: divide_le_eq_1)
qed

lemma check_vocabulary_coverage_range:
  "check_vocabulary_coverage c V = Inr x \<Longrightarrow> 0 \<le> x \<and> x \<le> 1"
  using ratio_range[of "length (filter (\<lambda>w. re_search_word None (py_lower w) (py_lower c)) V)" "length V"]
  by (auto simp: check_vocabulary_coverage_eq split: if_splits)

lemma check_readability_returns:
  "\<exists>x. check_readability c = Inr x \<and> 0 \<le> x \<and> x \<le> 1"
  by (auto simp: check_readability_def Let_def bind_error_def py_truediv_def split: prod.splits)

lemma check_coherence_range: "0 \<le> check_coherence c \<and> check_coherence c \<le> 1"
proof -
  have "(0::rat) \<le> min (2 / 10) (of_nat a * (5 / 100))" for a :: nat by simp
  moreover have "(0::rat) \<le> min (15 / 100) (of_nat a * (2 / 100))" for a :: nat by simp
  moreover have "(0::rat) \<le> min (15 / 100) (of_nat a * (3 / 100))" for a :: nat by simp
  ultimately show ?thesis
    by (auto simp: check_coherence_def Let_def intro!: add_nonneg_nonneg)
qed

lemma re_split_punct_nonempty: "re_split_punct r cur s \<noteq> []"
  by (induction s arbitrary: r cur) auto

lemma re_split_sentences_nonempty: "re_split_sentences s \<noteq> []"
  by (simp add: re_split_sentences_def re_split_punct_nonempty)

lemma starts_upper_nonempty: "starts_upper s \<Longrightarrow> s \<noteq> []"
  by (auto simp: starts_upper_def)

lemma capitalized_le_nonempty:
  "length (filter (\<lambda>s. starts_upper (py_strip s)) S) \<le> count_nonempty S"
  unfolding count_nonempty_def
  by (induction S) (auto dest: starts_upper_nonempty)

lemma check_basic_grammar_eq:
  "check_basic_grammar c =
     (if count_nonempty (re_split_sentences c) = 0 then Inl ZeroDivisionError
      else Inr (grammar_product c))"
proof -
  have "0 \<le> grammar_product c"
    by (simp add: grammar_product_def)
  then show ?thesis
  by (auto simp: check_basic_grammar_def Let_def bind_error_def py_truediv_def
      re_split_sentences_nonempty grammar_product_def max_def)
qed

lemma unit_mult:
  fixes x y :: rat
  shows "0 \<le> x \<Longrightarrow> x \<le> 1 \<Longrightarrow> 0 \<le> y \<Longrightarrow> y \<le> 1 \<Longrightarrow> 0 \<le> x * y \<and> x * y \<le> 1"
  by (simp add: mult_le_one)

lemma grammar_product_range:
  assumes "count_nonempty (re_split_sentences c) \<noteq> 0"
  shows "0 \<le> grammar_product c \<and> grammar_product c \<le> 1"
  unfolding grammar_product_def
  by (intro unit_mult conjunct1[OF unit_mult] conjunct2[OF unit_mult]
        conjunct1[OF ratio_range] conjunct2[OF ratio_range] capitalized_le_nonempty assms)
     auto

lemma check_basic_grammar_range:
  "check_basic_grammar c = Inr g \<Longrightarrow> 0 \<le> g \<and> g \<le> 1"
  using grammar_product_range[of c] by (auto simp: check_basic_grammar_eq split: if_splits)

lemma length_py_strip_le: "length (py_strip s) \<le> length s"
proof -
  have "length (dropWhile P xs) \<le> length xs" for P and xs :: string
    by (induction xs) auto
  then have "length (dropWhile py_isspace (rev (dropWhile py_isspace s))) \<le> length (rev (dropWhile py_isspace s))"
     and "length (dropWhile py_isspace s) \<le> length s" by blast+
  then show ?thesis by (simp add: py_strip_def)
qed

lemma comprehensive_validation_Inr:
  assumes "comprehensive_validation c V = Inr r"
  obtains v rd g where "check_vocabulary_coverage c V = Inr v" "check_readability c = Inr rd"
    "check_basic_grammar c = Inr g"
    "vocabulary_coverage r = v" "readability_score r = rd" "coherence_score r = check_coherence c"
    "quality_score r = v * (3 / 10) + rd * (25 / 100) + check_coherence c * (25 / 100) + g * (2 / 10)"
    "is_valid r = (quality_score r \<ge> 7 / 10 \<and> length (issues r) \<le> 2)"
    "issues r =
       append_if (g < 7 / 10) GrammarIssues
        (append_if (check_coherence c < 6 / 10) PoorCoherence
          (append_if (rd < 5 / 10) PoorReadability
            (append_if (v < 8 / 10) (LowVocabularyCoverage v)
              (append_if (length (py_strip c) > 1500) ContentTooLong
                (append_if (length (py_strip c) < 100) ContentTooShort [])))))"
proof -
  obtain v where v: "check_vocabulary_coverage c V = Inr v"
    using check_vocabulary_coverage_eq by blast
  obtain rd where rd: "check_readability c = Inr rd"
    using check_readability_returns by blast
  obtain g where g: "check_basic_grammar c = Inr g"
    using assms v rd
    by (cases "check_basic_grammar c") (auto simp: comprehensive_validation_def bind_error_def Let_def)
  show thesis
    using assms v rd g
    by (intro that[of v rd g])
       (auto simp: comprehensive_validation_def bind_error_def Let_def min_quality_threshold_def)
qed

lemma set_append_if: "set (append_if b t xs) = set xs \<union> (if b then {t} else {})"
  by (simp add: append_if_def)

lemma comprehensive_validation_returns:
  "(\<exists>r. comprehensive_validation c V = Inr r) \<longleftrightarrow> count_nonempty (re_split_sentences c) \<noteq> 0"
proof -
  obtain v where v: "check_vocabulary_coverage c V = Inr v"
    using check_vocabulary_coverage_eq by blast
  obtain rd where rd: "check_readability c = Inr rd"
    using check_readability_returns by blast
  show ?thesis using v rd
    by (simp add: comprehensive_validation_def bind_error_def Let_def check_basic_grammar_eq)
qed

lemma py_strip_plain:
  assumes "s \<noteq> []" "\<not> py_isspace (hd s)" "\<not> py_isspace (last s)"
  shows "py_strip s = s"
proof -
  have 1: "dropWhile py_isspace s = s" using assms by (cases s) auto
  obtain xs x where s: "s = xs @ [x]" using assms(1) by (cases s rule: rev_cases) auto
  then have "\<not> py_isspace x" using assms(3) by simp
  then have 2: "dropWhile py_isspace (rev s) = rev s" by (simp add: s)
  show ?thesis by (simp add: py_strip_def 1 2)
qed

subsection \<open>The aggregated result\<close>

text \<open>
  Claim C1. Whenever the comprehensive validation returns a result, its quality score is
  0.30 times the vocabulary coverage plus 0.25 times the readability plus 0.25 times the
  coherence plus 0.20 times the grammar score, it lies between 0 and 1, and the result is
  valid exactly when the quality score is at least 0.70 and at most two issues were found.
\<close>

theorem comprehensive_validation_composite:
  assumes "comprehensive_validation content vocabulary = Inr r"
  shows "\<exists>grammar.
           check_basic_grammar content = Inr grammar
         \<and> check_vocabulary_coverage content vocabulary = Inr (vocabulary_coverage r)
         \<and> check_readability content = Inr (readability_score r)
         \<and> check_coherence content = coherence_score r
         \<and> quality_score r =
             30 / 100 * vocabulary_coverage r + 25 / 100 * readability_score r
             + 25 / 100 * coherence_score r + 20 / 100 * grammar
         \<and> 0 \<le> quality_score r \<and> quality_score r \<le> 1
         \<and> (is_valid r \<longleftrightarrow> quality_score r \<ge> 70 / 100 \<and> length (issues r) \<le> 2)"
proof -
  from assms obtain v rd g where
    v: "check_vocabulary_coverage content vocabulary = Inr v" and
    rd: "check_readability content = Inr rd" and
    g: "check_basic_grammar content = Inr g" and
    fields: "vocabulary_coverage r = v" "readability_score r = rd"
      "coherence_score r = check_coherence content" and
    q: "quality_score r =
          v * (3 / 10) + rd * (25 / 100) + check_coherence content * (25 / 100) + g * (2 / 10)" and
    valid: "is_valid r = (quality_score r \<ge> 7 / 10 \<and> length (issues r) \<le> 2)"
    by (rule comprehensive_validation_Inr)
  have rv: "0 \<le> v" "v \<le> 1" using check_vocabulary_coverage_range[OF v] by simp_all
  have rrd: "0 \<le> rd" "rd \<le> 1" using check_readability_returns[of content] rd by auto
  have rc: "0 \<le> check_coherence content" "check_coherence content \<le> 1"
    using check_coherence_range[of content] by simp_all
  have rg: "0 \<le> g" "g \<le> 1" using check_basic_grammar_range[OF g] by simp_all
  have "0 \<le> quality_score r" "quality_score r \<le> 1"
    using rv rrd rc rg unfolding q by linarith+
  then show ?thesis using v rd g fields q valid by simp
qed

theorem comprehensive_validation_composite_witness:
  "\<exists>r. comprehensive_validation ''Hello there. How are you?'' [''hello'', ''moon''] = Inr r
       \<and> quality_score r = 30 / 100 * vocabulary_coverage r + 25 / 100 * readability_score r
             + 25 / 100 * coherence_score r + 20 / 100 * 1
       \<and> 0 \<le> quality_score r \<and> quality_score r \<le> 1 \<and> \<not> is_valid r"
proof -
  have r: "comprehensive_validation ''Hello there. How are you?'' [''hello'', ''moon'']
           = Inr \<lparr>is_valid = False, quality_score = 103 / 180,
                  issues = [ContentTooShort, LowVocabularyCoverage (1 / 2), PoorCoherence],
                  vocabulary_coverage = 1 / 2, readability_score = 53 / 90,
                  coherence_score = 3 / 10\<rparr>"
    by code_simp
  have g: "check_basic_grammar ''Hello there. How are you?'' = Inr 1" by code_simp
  show ?thesis using comprehensive_validation_composite[OF r] r g by auto
qed

text \<open>
  Claim C2. The grammar scorer divides the number of capitalised sentences by the number of
  non-empty sentences although the guard before the division tests the list of all pieces,
  which is never empty. On the empty text there is no non-empty sentence: the division raises
  \<^verbatim>\<open>ZeroDivisionError\<close>, and the comprehensive validation raises with it.
\<close>

theorem check_basic_grammar_raises_on_empty:
  "check_basic_grammar '''' = Inl ZeroDivisionError
   \<and> comprehensive_validation '''' [''adventure''] = Inl ZeroDivisionError"
  by code_simp

text \<open>
  When the comprehensive validation returns a result, a text of fewer than 100 characters
  carries the issue \<^verbatim>\<open>Content too short\<close>, and a text whose trimmed length exceeds 1500
  characters carries the issue \<^verbatim>\<open>Content too long\<close>.
\<close>

lemma issues_of_returned_result:
  assumes "comprehensive_validation content vocabulary = Inr r"
  shows "(length content < 100 \<longrightarrow> ContentTooShort \<in> set (issues r))
       \<and> (length (py_strip content) > 1500 \<longrightarrow> ContentTooLong \<in> set (issues r))"
proof -
  from assms obtain v rd g :: rat where
    "issues r =
       append_if (g < 7 / 10) GrammarIssues
        (append_if (check_coherence content < 6 / 10) PoorCoherence
          (append_if (rd < 5 / 10) PoorReadability
            (append_if (v < 8 / 10) (LowVocabularyCoverage v)
              (append_if (length (py_strip content) > 1500) ContentTooLong
                (append_if (length (py_strip content) < 100) ContentTooShort [])))))"
    by (rule comprehensive_validation_Inr)
  then show ?thesis using length_py_strip_le[of content]
    by (auto simp: set_append_if)
qed

lemma re_split_punct_separators:
  "\<forall>c \<in> set s. is_end_punct c \<Longrightarrow> re_split_punct True [] s = [[]]"
  by (induction s) auto

lemma re_split_sentences_separators:
  assumes "s \<noteq> []" "\<forall>c \<in> set s. is_end_punct c"
  shows "re_split_sentences s = [[], []]"
  using assms by (cases s) (auto simp: re_split_sentences_def re_split_punct_separators)

lemma comprehensive_validation_raises:
  assumes "count_nonempty (re_split_sentences c) = 0"
  shows "comprehensive_validation c V = Inl ZeroDivisionError"
proof -
  obtain v where v: "check_vocabulary_coverage c V = Inr v"
    using check_vocabulary_coverage_eq by blast
  obtain rd where rd: "check_readability c = Inr rd"
    using check_readability_returns by blast
  show ?thesis using v rd assms
    by (simp add: comprehensive_validation_def bind_error_def Let_def check_basic_grammar_eq)
qed

text \<open>
  Claim C8. The issue is appended to the list first, but the list is returned only at the
  end, after the grammar scorer. For a text without a non-empty sentence the grammar scorer
  raises (the division of claim C2), so there is no result and no issue list: the empty text
  is shorter than 100 characters, a text of 1501 full stops is longer than 1500, and for both
  the comprehensive validation raises \<^verbatim>\<open>ZeroDivisionError\<close> and \<^verbatim>\<open>validate\<close> returns
  \<open>(False, 0)\<close>.
\<close>

theorem length_tags_lost_when_grammar_raises:
  "length '''' < 100
   \<and> comprehensive_validation '''' [''adventure''] = Inl ZeroDivisionError
   \<and> validate '''' [''adventure''] = Inr (False, 0)
   \<and> length (py_strip (replicate 1501 (CHR ''.''))) > 1500
   \<and> comprehensive_validation (replicate 1501 (CHR ''.'')) [''adventure'']
       = Inl ZeroDivisionError
   \<and> validate (replicate 1501 (CHR ''.'')) [''adventure''] = Inr (False, 0)"
proof -
  let ?dots = "replicate 1501 (CHR ''.'')"
  have e: "comprehensive_validation '''' [''adventure''] = Inl ZeroDivisionError"
    by (rule comprehensive_validation_raises) code_simp
  have p: "is_end_punct (CHR ''.'')" "\<not> py_isspace (CHR ''.'')" by code_simp+
  have strip: "py_strip ?dots = ?dots"
    using p(2) by (intro py_strip_plain) (simp_all add: last_replicate)
  have "re_split_sentences ?dots = [[], []]"
    using p(1) by (intro re_split_sentences_separators) simp_all
  moreover have "py_strip [] = []" by (simp add: py_strip_def)
  ultimately have "count_nonempty (re_split_sentences ?dots) = 0"
    by (simp add: count_nonempty_def)
  then have d: "comprehensive_validation ?dots [''adventure''] = Inl ZeroDivisionError"
    by (rule comprehensive_validation_raises)
  have l: "length (py_strip ?dots) > 1500" by (simp add: strip)
  show ?thesis using e d l by (simp add: validate_def)
qed

text \<open>
  Claim C10. \<^verbatim>\<open>validate\<close> always returns a pair; when the comprehensive validation
  raises, the pair is \<open>(False, 0)\<close>.
\<close>

theorem validate_never_raises:
  "(\<exists>ok score. validate content vocabulary = Inr (ok, score))
   \<and> ((\<exists>e. comprehensive_validation content vocabulary = Inl e)
        \<longrightarrow> validate content vocabulary = Inr (False, 0))"
  by (cases "comprehensive_validation content vocabulary") (auto simp: validate_def)

theorem validate_never_raises_witness:
  "comprehensive_validation '''' [''adventure''] = Inl ZeroDivisionError
   \<and> validate '''' [''adventure''] = Inr (False, 0)"
proof -
  have h: "comprehensive_validation '''' [''adventure''] = Inl ZeroDivisionError" by code_simp
  then show ?thesis using validate_never_raises[of "''''" "[''adventure'']"] by blast
qed

subsection \<open>Vocabulary coverage\<close>

lemma boundary_at_append:
  "boundary_at (pre @ rest) (length pre) = word_boundary (last_option pre) (head_option rest)"
  by (cases rest; cases pre rule: rev_cases)
     (auto simp: boundary_at_def word_boundary_def is_word_def last_option_def head_option_def
        nth_append)

lemma match_literal_boundary_iff:
  "match_literal_boundary (last_option pre) w rest
   \<longleftrightarrow> prefix w rest \<and> boundary_at (pre @ rest) (length pre + length w)"
proof (induction w arbitrary: pre rest)
  case Nil
  show ?case using boundary_at_append[of pre rest]
    by (simp add: head_option_def)
next
  case (Cons l ls)
  show ?case
  proof (cases rest)
    case Nil
    then show ?thesis by simp
  next
    case (Cons c cs)
    have "Some c = last_option (pre @ [c])" by (simp add: last_option_def)
    then show ?thesis using Cons.IH[of "pre @ [c]" cs] Cons by auto
  qed
qed

lemma re_search_word_iff:
  "re_search_word (last_option pre) w s
   \<longleftrightarrow> (\<exists>i \<in> {length pre..length pre + length s}.
          prefix w (drop i (pre @ s)) \<and> boundary_at (pre @ s) i
          \<and> boundary_at (pre @ s) (i + length w))"
proof (induction s arbitrary: pre)
  case Nil
  show ?case
    using boundary_at_append[of pre "[]"] match_literal_boundary_iff[of pre w "[]"]
    by (auto simp: head_option_def)
next
  case (Cons c cs)
  let ?P = "\<lambda>i. prefix w (drop i (pre @ c # cs)) \<and> boundary_at (pre @ c # cs) i
          \<and> boundary_at (pre @ c # cs) (i + length w)"
  have here: "word_boundary (last_option pre) (Some c) \<and> match_literal_boundary (last_option pre) w (c # cs)
     \<longleftrightarrow> ?P (length pre)"
    using boundary_at_append[of pre "c # cs"] match_literal_boundary_iff[of pre w "c # cs"]
    by (auto simp: head_option_def)
  have "Some c = last_option (pre @ [c])" by (simp add: last_option_def)
  then have later: "re_search_word (Some c) w cs \<longleftrightarrow> (\<exists>i \<in> {Suc (length pre)..Suc (length pre) + length cs}. ?P i)"
    using Cons.IH[of "pre @ [c]"] by simp
  have "{length pre..length pre + length (c # cs)} = insert (length pre) {Suc (length pre)..Suc (length pre) + length cs}"
    by auto
  then show ?case using here later by (simp del: prefix_Cons)
qed

lemma re_search_word_spec: "re_search_word None w s \<longleftrightarrow> occurs_as_whole_word w s"
  using re_search_word_iff[of "[]" w s] by (simp add: last_option_def occurs_as_whole_word_def)

lemma found_in_text_code: "found_in_text w text = re_search_word None (py_lower w) (py_lower text)"
  by (simp add: found_in_text_def re_search_word_spec)

text \<open>
  Claim C5. The vocabulary coverage is the number of vocabulary words found in the text by
  the case-insensitive whole-word search, divided by the length of the vocabulary; it lies
  between 0 and 1, it is 1 when every word is found, and it is 1 for the empty vocabulary.
\<close>

theorem vocabulary_coverage_spec:
  "\<exists>x. check_vocabulary_coverage text vocabulary = Inr x
       \<and> x = (if vocabulary = [] then 1
              else of_nat (length (filter (\<lambda>w. found_in_text w text) vocabulary))
                   / of_nat (length vocabulary))
       \<and> 0 \<le> x \<and> x \<le> 1
       \<and> ((\<forall>w \<in> set vocabulary. found_in_text w text) \<longrightarrow> x = 1)"
proof -
  let ?n = "length (filter (\<lambda>w. found_in_text w text) vocabulary)"
  let ?x = "if vocabulary = [] then 1 else (of_nat ?n / of_nat (length vocabulary) :: rat)"
  have eq: "check_vocabulary_coverage text vocabulary = Inr ?x"
    by (simp add: check_vocabulary_coverage_eq found_in_text_code)
  have range: "0 \<le> ?x \<and> ?x \<le> 1"
    using check_vocabulary_coverage_range[OF eq] .
  have all: "?x = 1" if "\<forall>w \<in> set vocabulary. found_in_text w text"
  proof -
    have "filter (\<lambda>w. found_in_text w text) vocabulary = vocabulary"
      using that by (simp add: filter_id_conv)
    then show ?thesis by simp
  qed
  show ?thesis
    by (rule exI[of _ ?x]) (use eq range all in blast)
qed

theorem vocabulary_coverage_spec_witness:
  "found_in_text ''adventure'' ''A big Adventure!''
   \<and> found_in_text ''BIG'' ''A big Adventure!''
   \<and> check_vocabulary_coverage ''A big Adventure!'' [''adventure'', ''BIG''] = Inr 1
   \<and> \<not> found_in_text ''explore'' ''The explorer''
   \<and> found_in_text ''the'' ''The explorer''
   \<and> check_vocabulary_coverage ''The explorer'' [''explore'', ''the''] = Inr (1 / 2)"
proof -
  have f1: "found_in_text ''adventure'' ''A big Adventure!''"
    unfolding found_in_text_code by code_simp
  have f2: "found_in_text ''BIG'' ''A big Adventure!''"
    unfolding found_in_text_code by code_simp
  have g1: "\<not> found_in_text ''explore'' ''The explorer''"
    unfolding found_in_text_code by code_simp
  have g2: "found_in_text ''the'' ''The explorer''"
    unfolding found_in_text_code by code_simp
  have a: "check_vocabulary_coverage ''A big Adventure!'' [''adventure'', ''BIG''] = Inr 1"
    using vocabulary_coverage_spec[of "''A big Adventure!''" "[''adventure'', ''BIG'']"] f1 f2
    by simp
  have b: "check_vocabulary_coverage ''The explorer'' [''explore'', ''the''] = Inr (1 / 2)"
  proof -
    from vocabulary_coverage_spec[of "''The explorer''" "[''explore'', ''the'']"] g1 g2
    obtain x :: rat where x: "check_vocabulary_coverage ''The explorer'' [''explore'', ''the''] = Inr x"
      and "x * 2 = 1" by auto
    then have "x = 1 / 2" by linarith
    then show ?thesis using x by simp
  qed
  show ?thesis using f1 f2 g1 g2 a b by blast
qed

subsection \<open>Coherence\<close>

lemma py_in_sublist: "py_in w s \<longleftrightarrow> sublist w s"
proof (induction s)
  case Nil
  show ?case by simp
next
  case (Cons c cs)
  show ?case
  proof (cases w)
    case Nil
    then show ?thesis by simp
  next
    case (Cons x xs)
    then show ?thesis using Cons.IH by (simp add: sublist_Cons_right)
  qed
qed

lemma count_present_card:
  assumes "distinct markers"
  shows "count_present markers (py_lower text) = card (present_markers markers text)"
proof -
  have "count_present markers s = length (filter (\<lambda>w. py_in w s) markers)" for s
    unfolding count_present_def by (induction markers) auto
  moreover have "length (filter (\<lambda>w. py_in w s) markers) = card {w \<in> set markers. py_in w s}" for s
    using assms by (simp add: distinct_length_filter Int_def conj_commute)
  ultimately show ?thesis by (simp add: present_markers_def py_in_sublist)
qed

lemma distinct_markers: "distinct transitions" "distinct pronouns" "distinct connectors"
  by (simp_all add: transitions_def pronouns_def connectors_def)

text \<open>
  Claim C6. A text with fewer than three non-empty sentences has coherence 0.3. A text with
  at least three has 0.5, plus 0.05 for each distinct transition word that occurs in the
  lower-cased text (at most 0.20), plus 0.02 for each distinct pronoun (at most 0.15), plus
  0.03 for each distinct connector (at most 0.15), and at most 1 in all. A marker is present
  when it occurs anywhere in the lower-cased text, also inside a longer word.
\<close>

theorem coherence_spec:
  "(length (sentences_of text) < 3 \<longrightarrow> check_coherence text = 3 / 10)
   \<and> (length (sentences_of text) \<ge> 3 \<longrightarrow>
        check_coherence text =
          min 1 (5 / 10
                 + min (20 / 100) (5 / 100 * of_nat (card (present_markers transitions text)))
                 + min (15 / 100) (2 / 100 * of_nat (card (present_markers pronouns text)))
                 + min (15 / 100) (3 / 100 * of_nat (card (present_markers connectors text)))))"
  by (simp add: check_coherence_def Let_def count_present_card distinct_markers mult.commute)

theorem coherence_spec_witness:
  "length (sentences_of ''Hi there. Bye!'') < 3
   \<and> check_coherence ''Hi there. Bye!'' = 3 / 10
   \<and> length (sentences_of ''He ran. Then she sat. It was late and cold.'') \<ge> 3
   \<and> present_markers transitions ''He ran. Then she sat. It was late and cold.'' = {''then''}
   \<and> present_markers pronouns ''He ran. Then she sat. It was late and cold.'' = {''he'', ''she'', ''it''}
   \<and> present_markers connectors ''He ran. Then she sat. It was late and cold.'' = {''and''}
   \<and> check_coherence ''He ran. Then she sat. It was late and cold.'' = 64 / 100"
proof -
  let ?t = "''He ran. Then she sat. It was late and cold.''"
  have s1: "length (sentences_of ''Hi there. Bye!'') < 3" by code_simp
  have s2: "length (sentences_of ?t) \<ge> 3" by code_simp
  have lower: "py_lower ?t = ''he ran. then she sat. it was late and cold.''" by code_simp
  have m1: "present_markers transitions ?t = {''then''}"
    unfolding present_markers_def lower transitions_def by code_simp
  have m2: "present_markers pronouns ?t = {''he'', ''she'', ''it''}"
    unfolding present_markers_def lower pronouns_def by code_simp
  have m3: "present_markers connectors ?t = {''and''}"
    unfolding present_markers_def lower connectors_def by code_simp
  have c1: "card {''then''} = 1" "card {''he'', ''she'', ''it''} = 3" "card {''and''} = 1"
    by simp_all
  have "check_coherence ?t = 64 / 100"
    using coherence_spec[of ?t] s2 by (simp add: m1 m2 m3 c1)
  moreover have "check_coherence ''Hi there. Bye!'' = 3 / 10"
    using coherence_spec[of "''Hi there. Bye!''"] s1 by blast
  ultimately show ?thesis using s1 s2 m1 m2 m3 by blast
qed

subsection \<open>Syllable estimation\<close>

lemma vowel_groups_eq:
  "vowel_groups p n w =
     n + length (filter (\<lambda>(prev_vowel, c). \<not> prev_vowel \<and> is_vowel c) (zip (p # map is_vowel w) w))"
  by (induction w arbitrary: p n) auto

lemma vowel_groups_onsets: "vowel_groups False 0 w = vowel_onsets w"
  by (simp add: vowel_groups_eq vowel_onsets_def)

lemma re_sub_suffix_ed: "re_sub_suffix (u @ ''ed'') = u"
  by (induction u) (auto simp: matches_suffix_here_def suffix_alternatives_def)

lemma re_sub_suffix_es: "re_sub_suffix (u @ ''es'') = u"
  by (induction u) (auto simp: matches_suffix_here_def suffix_alternatives_def)

lemma re_sub_suffix_s: "\<not> suffix ''e'' u \<Longrightarrow> re_sub_suffix (u @ ''s'') = u"
  by (induction u) (auto simp: matches_suffix_here_def suffix_alternatives_def suffix_Cons)

lemma re_sub_suffix_none:
  "\<not> suffix ''ed'' w \<Longrightarrow> \<not> suffix ''s'' w \<Longrightarrow> w = [] \<or> last w \<noteq> CHR 0x0A \<Longrightarrow> re_sub_suffix w = w"
  by (induction w) (auto simp: matches_suffix_here_def suffix_alternatives_def suffix_Cons split: if_splits)

lemma re_sub_suffix_spec:
  assumes "w = [] \<or> last w \<noteq> CHR 0x0A"
  shows "re_sub_suffix w = strip_one_suffix w"
proof -
  consider (ed) "suffix ''ed'' w" | (es) "suffix ''es'' w" | (s) "suffix ''s'' w" "\<not> suffix ''es'' w"
    | (none) "\<not> suffix ''ed'' w" "\<not> suffix ''s'' w" by blast
  then show ?thesis
  proof cases
    case ed
    then obtain u where "w = u @ ''ed''" by (auto simp: suffix_def)
    then show ?thesis using ed by (simp add: strip_one_suffix_def re_sub_suffix_ed)
  next
    case es
    then obtain u where "w = u @ ''es''" by (auto simp: suffix_def)
    then show ?thesis using es by (simp add: strip_one_suffix_def re_sub_suffix_es)
  next
    case s
    then obtain u where u: "w = u @ ''s''" by (auto simp: suffix_def)
    then have "\<not> suffix ''e'' u" using s(2) by (auto simp: suffix_def)
    moreover have "\<not> suffix ''ed'' w" using u by (auto simp: suffix_def)
    ultimately show ?thesis using s u by (simp add: strip_one_suffix_def re_sub_suffix_s)
  next
    case none
    moreover have "\<not> suffix ''es'' w" using none(2) by (auto simp: suffix_def)
    ultimately show ?thesis using assms by (simp add: strip_one_suffix_def re_sub_suffix_none)
  qed
qed

lemma of_char_lower_char:
  "(of_char (lower_char c) :: nat) = (if py_isupper c then of_char c + 32 else of_char c)"
proof -
  have "(of_char c :: nat) < 256" by simp
  then have "py_isupper c \<Longrightarrow> ((of_char c :: nat) + 32) mod 256 = of_char c + 32"
    by (auto simp: py_isupper_def Let_def)
  then show ?thesis by (simp add: lower_char_def)
qed

lemma py_isspace_lower_char: "py_isspace (lower_char c) = py_isspace c"
  unfolding py_isspace_def of_char_lower_char Let_def
  by (auto simp: py_isupper_def Let_def)

lemma py_strip_lower: "py_strip (py_lower s) = py_lower (py_strip s)"
proof -
  have "py_isspace \<circ> lower_char = py_isspace" by (auto simp: py_isspace_lower_char)
  then show ?thesis
    by (simp add: py_strip_def py_lower_def dropWhile_map rev_map)
qed

lemma last_py_strip: "py_strip s \<noteq> [] \<Longrightarrow> \<not> py_isspace (last (py_strip s))"
  unfolding py_strip_def using hd_dropWhile[of py_isspace "rev (dropWhile py_isspace s)"]
  by (simp add: last_rev)

lemma estimate_syllables_pos: "token \<noteq> [] \<Longrightarrow> estimate_syllables token \<ge> 1"
  by (simp add: estimate_syllables_def Let_def)

lemma count_syllables_eq: "count_syllables token = estimate_syllables (py_strip token)"
proof (cases "py_strip token = []")
  case True
  have "py_lower [] = []" by (simp add: py_lower_def)
  then have "py_strip (py_lower token) = []" using True by (simp add: py_strip_lower)
  then show ?thesis using True by (simp add: count_syllables_def estimate_syllables_def)
next
  case False
  let ?w = "py_lower (py_strip token)"
  have ne: "?w \<noteq> []" using False by (simp add: py_lower_def)
  have "\<not> py_isspace (last ?w)"
    using last_py_strip[of "py_lower token"] ne by (simp add: py_strip_lower)
  moreover have "py_isspace (CHR 0x0A)" by (simp add: py_isspace_def)
  ultimately have "last ?w \<noteq> CHR 0x0A" by metis
  then have "re_sub_suffix ?w = strip_one_suffix ?w" by (simp add: re_sub_suffix_spec)
  then show ?thesis using False ne
    by (simp add: count_syllables_def estimate_syllables_def py_strip_lower Let_def
        vowel_groups_onsets py_endswith_def)
qed

text \<open>
  Claim C7, as the code has it. The estimator first lower-cases the token and trims
  whitespace from both ends; what it returns is the specification's estimate of the trimmed
  token: 0 when nothing remains, otherwise one trailing \<open>ed\<close>, \<open>es\<close> or \<open>s\<close> is removed,
  the vowels that follow a non-vowel are counted, a final \<open>e\<close> takes one off a count above
  1, and the result is at least 1. On a token without surrounding whitespace this is the
  specification's estimate of the token itself.
\<close>

theorem count_syllables_trimmed:
  "count_syllables token = estimate_syllables (py_strip token)
   \<and> (py_strip token = token \<longrightarrow> count_syllables token = estimate_syllables token)
   \<and> (py_strip token \<noteq> [] \<longrightarrow> count_syllables token \<ge> 1)
   \<and> (py_strip token = [] \<longrightarrow> count_syllables token = 0)"
  using estimate_syllables_pos[of "py_strip token"]
  by (auto simp: count_syllables_eq estimate_syllables_def)

theorem count_syllables_trimmed_witness:
  "py_strip ''Brave'' = ''Brave'' \<and> count_syllables ''Brave'' = estimate_syllables ''Brave''
   \<and> estimate_syllables ''Brave'' = 1
   \<and> py_strip '' Decided '' \<noteq> [] \<and> count_syllables '' Decided '' = 2
   \<and> py_strip '''' = [] \<and> count_syllables '''' = 0"
proof -
  have a: "py_strip ''Brave'' = ''Brave''" "py_strip '' Decided '' \<noteq> []" "py_strip '''' = []"
    by code_simp+
  have b: "estimate_syllables ''Brave'' = 1" "count_syllables '' Decided '' = 2" by code_simp+
  show ?thesis
    using count_syllables_trimmed[of "''Brave''"] count_syllables_trimmed[of "'' Decided ''"]
      count_syllables_trimmed[of "''''"] a b by simp
qed

text \<open>
  The claim as stated fails on a token of whitespace: it is not empty, and the estimator
  returns 0 where the untrimmed description gives 1.
\<close>

theorem count_syllables_blank_counterexample:
  "'' '' \<noteq> [] \<and> count_syllables '' '' = 0 \<and> estimate_syllables '' '' = 1"
  by code_simp

subsection \<open>The example of the specification, evaluated\<close>

lemma example_coverage: "check_vocabulary_coverage example_text example_vocabulary = Inr 1"
  unfolding example_text_def example_vocabulary_def by code_simp

lemma example_readability: "check_readability example_text = Inr (461 / 540)"
  unfolding example_text_def by code_simp

lemma example_coherence: "check_coherence example_text = 17 / 25"
  unfolding example_text_def by code_simp

lemma example_grammar: "check_basic_grammar example_text = Inr 1"
  unfolding example_text_def by code_simp

lemma example_length: "length (py_strip example_text) = 393"
  unfolding example_text_def by code_simp

text \<open>
  Claim C9. On the example text with the vocabulary adventure, mysterious, explore,
  discover, the validation returns vocabulary coverage 1, no issue, the quality score
  9541/10800 (about 0.883, above 0.70) and a valid result; \<^verbatim>\<open>validate\<close> returns the pair
  of validity and score.
\<close>

theorem example_validation:
  "comprehensive_validation example_text example_vocabulary =
     Inr \<lparr> is_valid = True, quality_score = 9541 / 10800, issues = [],
           vocabulary_coverage = 1, readability_score = 461 / 540, coherence_score = 17 / 25 \<rparr>
   \<and> (9541 / 10800 :: rat) \<ge> 70 / 100
   \<and> validate example_text example_vocabulary = Inr (True, 9541 / 10800)"
proof -
  have "comprehensive_validation example_text example_vocabulary =
     Inr \<lparr> is_valid = True, quality_score = 9541 / 10800, issues = [],
           vocabulary_coverage = 1, readability_score = 461 / 540, coherence_score = 17 / 25 \<rparr>"
    by (simp add: comprehensive_validation_def bind_error_def append_if_def Let_def
        example_coverage example_readability example_coherence example_grammar example_length
        min_quality_threshold_def)
  then show ?thesis by (simp add: validate_def)
qed

subsection \<open>The cache and the validation\<close>











subsection \<open>The cache key\<close>

lemma length_md5_digest: "length (md5_digest data) = 16"
  by (simp add: md5_digest_def word_bytes_def split: prod.splits)
lemma length_pairs: "length (concat (map (\<lambda>b. [f b, g b]) bs)) = 2 * length bs"
    by (induction bs) auto
lemma length_hexdigest: "length (hexdigest data) = 32"
  unfolding hexdigest_def length_pairs length_md5_digest by simp

lemma hex_digit_mem: "hex_digit n \<in> set ''0123456789abcdef''"
  unfolding hex_digit_def by (rule nth_mem) simp
lemma set_concat_pairs:
  assumes "\<And>b. f b \<in> S" "\<And>b. g b \<in> S"
  shows "set (concat (map (\<lambda>b. [f b, g b]) bs)) \<subseteq> S"
  using assms by (induction bs) auto

lemma set_hexdigest: "set (hexdigest data) \<subseteq> set ''0123456789abcdef''"
  unfolding hexdigest_def by (rule set_concat_pairs) (rule hex_digit_mem)+

lemma sort_permutation:
  fixes V V' :: "'a::linorder list"
  shows "mset V' = mset V \<Longrightarrow> sort V' = sort V"
  by (rule properties_for_sort) simp_all

lemma key_string_permutation:
  assumes "mset V' = mset V"
  shows "key_string V' d c = key_string V d c"
  unfolding key_string_def sort_permutation[OF assms] ..

lemma finite_hex_strings: "finite hex_strings"
  unfolding hex_strings_def by (rule finite_lists_length_eq) (rule finite_set)

lemma generate_cache_key_hex: "generate_cache_key V d c \<in> hex_strings"
  unfolding hex_strings_def generate_cache_key_def
  using set_hexdigest length_hexdigest by blast

lemma finite_keys: "finite (range (\<lambda>d. generate_cache_key V d c))"
  by (rule finite_subset[OF _ finite_hex_strings]) (use generate_cache_key_hex in blast)

text \<open>
  Claim C4, the part that holds: the key depends on the vocabulary only through its multiset,
  so every permutation of the vocabulary gives the same key.
\<close>

theorem cache_key_permutation:
  "mset V' = mset V \<Longrightarrow> generate_cache_key V' d c = generate_cache_key V d c"
  using key_string_permutation[of V' V d c] by (simp add: generate_cache_key_def)

theorem cache_key_permutation_witness:
  "mset [''explore'', ''adventure''] = mset [''adventure'', ''explore'']
   \<and> generate_cache_key [''explore'', ''adventure''] 2 ''adventure''
       = generate_cache_key [''adventure'', ''explore''] 2 ''adventure''"
proof -
  have m: "mset [''explore'', ''adventure''] = mset [''adventure'', ''explore'']"
    by (simp add: add.commute)
  show ?thesis using cache_key_permutation[OF m] m by blast
qed

text \<open>
  The other part of the claim fails: a key is one of finitely many strings of 32 hexadecimal
  digits, and there are infinitely many difficulties, so two different difficulties share a
  key.
\<close>

theorem difficulty_collision_counterexample:
  "\<not> (\<forall>d d'. d \<noteq> d' \<longrightarrow>
          generate_cache_key [''adventure''] d ''general''
          \<noteq> generate_cache_key [''adventure''] d' ''general'')"
proof
  assume a: "\<forall>d d'. d \<noteq> d' \<longrightarrow>
          generate_cache_key [''adventure''] d ''general''
          \<noteq> generate_cache_key [''adventure''] d' ''general''"
  have "inj (\<lambda>d. generate_cache_key [''adventure''] d ''general'')"
    unfolding inj_def using a by blast
  then have "finite (UNIV :: int set)"
    using finite_keys[of "[''adventure'']" "''general''"] by (rule finite_imageD[rotated])
  then show False using infinite_UNIV_int by blast
qed

end
